theory Spec2Isabelle
  imports Main
begin

section \<open>Data model\<close>

text \<open>
  The Go package keeps its mutable objects (request, response body, destinations of
  the parsers, loggers) on the heap and reaches them through pointers and interface
  values. The embedding passes an explicit world \<open>'w\<close> through every call that can
  have an effect, and represents
  \<^item> a pointer that may be nil by an \<open>option\<close> (\<open>None\<close> is nil);
  \<^item> a map that several holders may refer to (\<open>http.Header\<close>) by its address in a
    store of maps, which is part of the world;
  \<^item> an interface value or a \<open>func\<close> value by the functions it offers, each taking
    and returning the world;
  \<^item> a call that may panic by an \<open>outcome\<close>.
\<close>

datatype 'a outcome = Returns 'a | Panics

text \<open>
  \<open>type StatusCodeError struct { Code int; Status string; Body string }\<close>
\<close>

record StatusCodeError =
  Code :: int
  Status :: string
  Body :: string

text \<open>
  Go's \<open>error\<close> values, as far as this package makes them. \<open>Errorf f\<close> is
  \<open>fmt.Errorf(f, ...)\<close> with no \<open>%w\<close> verb: the format string is kept, the rendering
  of the \<open>%v\<close> operands is not modelled. \<open>Wrapf f e\<close> is \<open>fmt.Errorf(f, e)\<close> with
  one \<open>%w\<close> verb wrapping \<open>e\<close>. \<open>External s\<close> is an error made outside this package
  (transport, stream, decoder, request construction).
\<close>

datatype error =
    Errorf string
  | Wrapf string error
  | StatusError StatusCodeError
  | External string

text \<open>\<open>func (t StatusCodeError) HTTPStatusCode() int { return t.Code }\<close>\<close>

definition HTTPStatusCode :: "StatusCodeError \<Rightarrow> int" where
  "HTTPStatusCode t = Code t"

text \<open>
  \<open>http.Header\<close> is \<open>map[string][]string\<close>, a reference type: \<open>req.Header = header\<close>
  makes the request refer to the caller's map, and a write through either is seen
  through both. A \<open>header\<close> is the contents of such a map; the maps live in a
  \<open>store\<close>, by address, and a value of type \<open>http.Header\<close> is the address of a map,
  or \<open>None\<close> for the nil map. A world in which header maps are written has the store
  as a part: it is of type \<open>'a store_scheme\<close>.
  Of \<open>http.Request\<close> the fields that the modelled code reads or writes are kept.
\<close>

type_synonym header = "string \<Rightarrow> string list option"

record store =
  headerMaps :: "nat \<Rightarrow> header"

record request =
  Method :: string
  URL :: string
  Header :: "nat option"

text \<open>The headers that a request carries: the contents of the map it refers to.\<close>

definition headersOf :: "request \<Rightarrow> 'a store_scheme \<Rightarrow> header option" where
  "headersOf r w = map_option (headerMaps w) (Header r)"

text \<open>
  \<open>resp.Body\<close> is an \<open>io.ReadCloser\<close>: an interface value, given by its methods.
  \<open>ReadAll\<close> is what \<open>ioutil.ReadAll\<close> obtains from the stream (the bytes read and
  the error that ended the reading, \<open>None\<close> for end of file).
  net/http documents that the body of a response returned by a client is never nil,
  so \<open>Body_resp\<close> is not an option.
\<close>

record 'w body =
  ReadAll :: "'w \<Rightarrow> (string \<times> error option) \<times> 'w"
  Close :: "'w \<Rightarrow> error option \<times> 'w"

record 'w response =
  StatusCode :: int
  Status_resp :: string
  ContentLength :: int
  Body_resp :: "'w body"

text \<open>
  \<open>*log.Logger\<close> (logrus), by the two calls the package makes on it:
  \<open>log.Infof(s)\<close> and \<open>log.WithError(err).Error(s)\<close>.
\<close>

record 'w logger =
  Infof :: "string \<Rightarrow> 'w \<Rightarrow> 'w"
  WithError_Error :: "error \<Rightarrow> string \<Rightarrow> 'w \<Rightarrow> 'w"

text \<open>
  The function types of the package. Each takes the pointer it is given and the
  world, and returns its Go result, or panics, and the world it leaves.

  A \<open>RequestOption\<close> mutates \<open>*req\<close>: besides the error it returns the request as
  it is after the call (\<open>None\<close> where the pointer was nil).
  A \<open>ValidateResponse\<close> and a \<open>ResponseParser\<close> consume the body stream and write
  destinations, which are in the world.
  A nil \<open>func\<close> value is the function that panics at once.
\<close>

type_synonym 'w RequestOption =
  "request option \<Rightarrow> 'w \<Rightarrow> (error option \<times> request option) outcome \<times> 'w"

type_synonym 'w ResponseParser =
  "'w response option \<Rightarrow> 'w \<Rightarrow> error option outcome \<times> 'w"

type_synonym 'w ValidateResponse =
  "'w response option \<Rightarrow> 'w \<Rightarrow> error option outcome \<times> 'w"

text \<open>
  \<open>type httpClient interface { Do(*http.Request) (*http.Response, error) }\<close>
\<close>

type_synonym 'w httpClient =
  "request option \<Rightarrow> 'w \<Rightarrow> ('w response option \<times> error option) outcome \<times> 'w"

record 'w Client =
  endpoint :: string
  log :: "'w logger option"
  httpClient :: "'w httpClient"
  requestOptionsChain :: "'w RequestOption list"
  validateResponseFn :: "'w ValidateResponse"
  debug :: bool

type_synonym 'w Option = "'w Client \<Rightarrow> 'w Client"

text \<open>
  What the package calls in the Go standard library and in logrus; none of it is under
  src/, so it is a parameter of the model.
  \<^item> \<open>newRequestWithContext ctx method url\<close>: \<open>http.NewRequestWithContext(ctx, method, url, nil)\<close>,
    which makes a new header map for the request it returns, so it takes and returns
    the world;
  \<^item> \<open>dumpRequestOut\<close>: \<open>httputil.DumpRequestOut(req, true)\<close>;
  \<^item> \<open>dumpResponse\<close>: \<open>httputil.DumpResponse(resp, true)\<close>, which reads the body,
    closes it and puts a copy of it into \<open>*resp\<close>, so the response as it is after the
    call is returned as well;
  \<^item> \<open>jsonDecode b dst\<close>: \<open>json.NewDecoder(b).Decode(dst)\<close>;
  \<^item> \<open>defaultHttpClient\<close>: \<open>&http.Client{Timeout: 30 * time.Second}\<close>;
  \<^item> \<open>newLogger\<close>: \<open>log.New()\<close>.
\<close>

record ('w, 'c, 'd) env =
  newRequestWithContext :: "'c \<Rightarrow> string \<Rightarrow> string \<Rightarrow> 'w \<Rightarrow> (error + request) \<times> 'w"
  dumpRequestOut :: "request option \<Rightarrow> 'w \<Rightarrow> (string \<times> error option) \<times> 'w"
  dumpResponse :: "'w response \<Rightarrow> 'w \<Rightarrow> ((string \<times> error option) \<times> 'w response) \<times> 'w"
  jsonDecode :: "'w body \<Rightarrow> 'd \<Rightarrow> 'w \<Rightarrow> error option \<times> 'w"
  defaultHttpClient :: "'w httpClient"
  newLogger :: "'w logger"


section \<open>Client configuration\<close>

text \<open>\<open>WithHttpClient\<close>, \<open>WithLog\<close>, \<open>WithRequestOptions\<close>, \<open>WithDebug\<close>,
  \<open>WithResponseValidator\<close>: each returns the function that mutates the client.\<close>

definition WithHttpClient :: "'w httpClient \<Rightarrow> 'w Option" where
  "WithHttpClient client c = c\<lparr>httpClient := client\<rparr>"

definition WithLog :: "'w logger option \<Rightarrow> 'w Option" where
  "WithLog l c = c\<lparr>log := l\<rparr>"

definition WithRequestOptions :: "'w RequestOption list \<Rightarrow> 'w Option" where
  "WithRequestOptions fn c = c\<lparr>requestOptionsChain := requestOptionsChain c @ fn\<rparr>"

definition WithDebug :: "bool \<Rightarrow> 'w Option" where
  "WithDebug b c = c\<lparr>debug := b\<rparr>"

definition WithResponseValidator :: "'w ValidateResponse \<Rightarrow> 'w Option" where
  "WithResponseValidator v c = c\<lparr>validateResponseFn := v\<rparr>"

text \<open>
  \<open>base64.StdEncoding.EncodeToString\<close>, not under src/ and modelled from RFC 4648:
  three bytes give four characters of the alphabet, and a last group of one or two
  bytes is padded with \<open>=\<close>.
\<close>

definition base64Alphabet :: string where
  "base64Alphabet =
     ''ABCDEFGHIJKLMNOPQRSTUVWXYZabcdefghijklmnopqrstuvwxyz0123456789+/''"

fun base64Groups :: "nat list \<Rightarrow> string" where
  "base64Groups (a # b # c # rest) =
     [base64Alphabet ! (a div 4),
      base64Alphabet ! ((a mod 4) * 16 + b div 16),
      base64Alphabet ! ((b mod 16) * 4 + c div 64),
      base64Alphabet ! (c mod 64)] @ base64Groups rest"
| "base64Groups [a, b] =
     [base64Alphabet ! (a div 4),
      base64Alphabet ! ((a mod 4) * 16 + b div 16),
      base64Alphabet ! ((b mod 16) * 4),
      CHR ''='']"
| "base64Groups [a] =
     [base64Alphabet ! (a div 4),
      base64Alphabet ! ((a mod 4) * 16),
      CHR ''='', CHR ''='']"
| "base64Groups [] = []"

definition base64 :: "string \<Rightarrow> string" where
  "base64 s = base64Groups (map of_char s)"

text \<open>
  \<open>basicAuth(username, password)\<close> of net/http, not under src/:
  \<open>base64.StdEncoding.EncodeToString([]byte(username + ":" + password))\<close>.
\<close>

definition basicAuth :: "string \<Rightarrow> string \<Rightarrow> string" where
  "basicAuth username password = base64 (username @ '':'' @ password)"

text \<open>
  \<open>req.SetBasicAuth(username, password)\<close> of net/http, not under src/ and modelled
  from its documentation: it sets the Authorization header of the request to
  \<open>"Basic " + basicAuth(username, password)\<close>, by \<open>r.Header.Set\<close>. It dereferences
  \<open>req\<close> and assigns into the map that \<open>req.Header\<close> refers to, in place: a nil
  request and a nil map panic, and whoever else holds that map sees the entry.
\<close>

definition SetBasicAuth ::
  "string \<Rightarrow> string \<Rightarrow> request option \<Rightarrow> 'a store_scheme
     \<Rightarrow> unit outcome \<times> 'a store_scheme" where
  "SetBasicAuth username password req w =
     (case req of
        None \<Rightarrow> (Panics, w)
      | Some r \<Rightarrow>
          (case Header r of
             None \<Rightarrow> (Panics, w)
           | Some a \<Rightarrow>
               (Returns (),
                w\<lparr>headerMaps := (headerMaps w)
                    (a := (headerMaps w a)
                       (''Authorization'' \<mapsto> [''Basic '' @ basicAuth username password]))\<rparr>)))"

text \<open>
  The closure that \<open>RequestBasicAuthOption\<close> appends:
  \<open>func(req *http.Request) (e error) { req.SetBasicAuth(username, password); return }\<close>
\<close>

definition basicAuthRequestOption ::
  "string \<Rightarrow> string \<Rightarrow> 'a store_scheme RequestOption" where
  "basicAuthRequestOption username password req w =
     (case SetBasicAuth username password req w of
        (Panics, w1) \<Rightarrow> (Panics, w1)
      | (Returns u, w1) \<Rightarrow> (Returns (None, req), w1))"

definition RequestBasicAuthOption ::
  "string \<Rightarrow> string \<Rightarrow> 'a store_scheme Option" where
  "RequestBasicAuthOption username password c =
     c\<lparr>requestOptionsChain :=
         requestOptionsChain c @ [basicAuthRequestOption username password]\<rparr>"

section \<open>Built-in request options\<close>

text \<open>
  \<open>WithHeadersOpt(header)\<close>: the nil check, then \<open>req.Header = header\<close>, after which
  the request refers to the caller's map.
\<close>

definition WithHeadersOpt :: "nat option \<Rightarrow> 'w RequestOption" where
  "WithHeadersOpt header req w =
     (if header = None \<or> req = None
      then (Returns (Some (Errorf ''WithHeadersOpt error: %v | %v''), req), w)
      else (Returns (None, map_option (\<lambda>r. r\<lparr>Header := header\<rparr>) req), w))"

section \<open>Logging\<close>

text \<open>
  A call of a logrus method on a nil \<open>*log.Logger\<close> reads the fields of the
  receiver: it panics.
\<close>

definition logInfof :: "'w logger option \<Rightarrow> string \<Rightarrow> 'w \<Rightarrow> unit outcome \<times> 'w" where
  "logInfof l s w = (case l of None \<Rightarrow> (Panics, w) | Some lg \<Rightarrow> (Returns (), Infof lg s w))"

definition logWithErrorError ::
  "'w logger option \<Rightarrow> error \<Rightarrow> string \<Rightarrow> 'w \<Rightarrow> unit outcome \<times> 'w" where
  "logWithErrorError l err s w =
     (case l of None \<Rightarrow> (Panics, w) | Some lg \<Rightarrow> (Returns (), WithError_Error lg err s w))"

definition logRequest ::
  "('w, 'c, 'd) env \<Rightarrow> request option \<Rightarrow> 'w logger option \<Rightarrow> 'w \<Rightarrow> unit outcome \<times> 'w" where
  "logRequest env req l w =
     (case dumpRequestOut env req w of
        ((requestDump, Some err), w1) \<Rightarrow>
          logWithErrorError l err ''failed to dump http request for logging'' w1
      | ((requestDump, None), w1) \<Rightarrow> logInfof l requestDump w1)"

text \<open>
  \<open>logResponse\<close> returns, besides the outcome, the response as the dump leaves it.
\<close>

definition logResponse ::
  "('w, 'c, 'd) env \<Rightarrow> 'w response \<Rightarrow> 'w logger option \<Rightarrow> 'w
     \<Rightarrow> (unit outcome \<times> 'w response) \<times> 'w" where
  "logResponse env resp l w =
     (case dumpResponse env resp w of
        (((respDump, Some err), resp1), w1) \<Rightarrow>
          (case logWithErrorError l err ''failed to dump http response for logging'' w1 of
             (r, w2) \<Rightarrow> ((r, resp1), w2))
      | (((respDump, None), resp1), w1) \<Rightarrow>
          (case logInfof l respDump w1 of (r, w2) \<Rightarrow> ((r, resp1), w2)))"

section \<open>Response parsers\<close>

text \<open>
  A destination \<open>dst *string\<close> or \<open>dst *[]byte\<close> is the capability to store into
  the place it points to: \<open>None\<close> for nil, \<open>Some put\<close> otherwise. A Go string and a
  byte slice are both a \<open>string\<close> (a list of byte-sized characters) here.
\<close>

type_synonym 'w dst = "(string \<Rightarrow> 'w \<Rightarrow> 'w) option"

definition RawStringParser :: "'w dst \<Rightarrow> 'w ResponseParser" where
  "RawStringParser dst resp w =
     (if resp = None \<or> dst = None
      then (Returns (Some (Errorf ''RawStringParser function error: %v | %v'')), w)
      else
        (case ReadAll (Body_resp (the resp)) w of
           ((body, Some err), w1) \<Rightarrow>
             (Returns (Some (Wrapf ''failed to read resp body: %w'' err)), w1)
         | ((body, None), w1) \<Rightarrow> (Returns None, (the dst) body w1)))"

definition RawBodyParser :: "'w dst \<Rightarrow> 'w ResponseParser" where
  "RawBodyParser dst resp w =
     (if resp = None \<or> dst = None
      then (Returns (Some (Errorf ''RawBodyParser function error: %v | %v'')), w)
      else
        (case ReadAll (Body_resp (the resp)) w of
           ((body, Some err), w1) \<Rightarrow>
             (Returns (Some (Wrapf ''failed to read resp body: %w'' err)), w1)
         | ((body, None), w1) \<Rightarrow> (Returns None, (the dst) body w1)))"

text \<open>
  \<open>NoBodyParser(log)\<close> reads \<open>resp.ContentLength\<close> with no nil check: a nil
  response panics.
\<close>

definition NoBodyParser ::
  "('w, 'c, 'd) env \<Rightarrow> 'w logger option \<Rightarrow> 'w ResponseParser" where
  "NoBodyParser env l resp w =
     (case resp of
        None \<Rightarrow> (Panics, w)
      | Some r \<Rightarrow>
          (if ContentLength r \<noteq> 0 \<and> l \<noteq> None
           then (case logResponse env r l w of
                   ((Panics, r1), w1) \<Rightarrow> (Panics, w1)
                 | ((Returns u, r1), w1) \<Rightarrow> (Returns None, w1))
           else (Returns None, w)))"

text \<open>
  \<open>JsonParser(dst interface{})\<close>: \<open>dst == nil\<close> holds for the nil interface value
  only, which is \<open>None\<close>; every other value, a typed nil pointer among them, is
  handed to the decoder.
\<close>

definition JsonParser :: "('w, 'c, 'd) env \<Rightarrow> 'd option \<Rightarrow> 'w ResponseParser" where
  "JsonParser env dst resp w =
     (if resp = None \<or> dst = None
      then (Returns (Some (Errorf ''JsonParser function error: %v | %v'')), w)
      else (case jsonDecode env (Body_resp (the resp)) (the dst) w of
              (e, w1) \<Rightarrow> (Returns e, w1)))"

section \<open>Default response validator\<close>

definition ResponseValidator :: "'w ValidateResponse" where
  "ResponseValidator resp w =
     (case resp of
        None \<Rightarrow> (Panics, w)
      | Some r \<Rightarrow>
          (if StatusCode r > 300
           then
             (case ReadAll (Body_resp r) w of
                ((body, Some err), w1) \<Rightarrow>
                  (Returns (Some (Wrapf ''failed to read response body: %w'' err)), w1)
              | ((body, None), w1) \<Rightarrow>
                  (Returns (Some (StatusError
                     \<lparr>Code = StatusCode r, Status = Status_resp r, Body = body\<rparr>)), w1))
           else (Returns None, w)))"


section \<open>The request pipeline\<close>

text \<open>
  \<open>NewClient(endpoint, options...)\<close>: the defaults, then each option in turn.
\<close>

definition NewClient :: "('w, 'c, 'd) env \<Rightarrow> string \<Rightarrow> 'w Option list \<Rightarrow> 'w Client" where
  "NewClient env endpoint' options =
     foldl (\<lambda>c opt. opt c)
       \<lparr>endpoint = endpoint',
        log = Some (newLogger env),
        httpClient = defaultHttpClient env,
        requestOptionsChain = [],
        validateResponseFn = ResponseValidator,
        debug = False\<rparr>
       options"

text \<open>
  The two loops of \<open>DoRequest\<close> have the same body:
  \<open>for _, opt := range chain { if err := opt(req); err != nil { return fmt.Errorf("failed to apply global request option: %w", err) } }\<close>.
  The result is the error with which \<open>DoRequest\<close> returns from inside the loop, or
  \<open>None\<close> when the loop has run to its end, and the request as the loop leaves it.
\<close>

fun applyRequestOptions ::
  "'w RequestOption list \<Rightarrow> request option \<Rightarrow> 'w
     \<Rightarrow> (error option \<times> request option) outcome \<times> 'w" where
  "applyRequestOptions [] req w = (Returns (None, req), w)"
| "applyRequestOptions (opt # opts) req w =
     (case opt req w of
        (Panics, w1) \<Rightarrow> (Panics, w1)
      | (Returns (Some err, req1), w1) \<Rightarrow>
          (Returns (Some (Wrapf ''failed to apply global request option: %w'' err), req1), w1)
      | (Returns (None, req1), w1) \<Rightarrow> applyRequestOptions opts req1 w1)"

text \<open>\<open>if c.debug { logRequest(req, c.log) }\<close> and \<open>if c.debug { logResponse(resp, c.log) }\<close>\<close>

definition debugRequest ::
  "('w, 'c, 'd) env \<Rightarrow> 'w Client \<Rightarrow> request option \<Rightarrow> 'w \<Rightarrow> unit outcome \<times> 'w" where
  "debugRequest env c req w =
     (if debug c then logRequest env req (log c) w else (Returns (), w))"

definition debugResponse ::
  "('w, 'c, 'd) env \<Rightarrow> 'w Client \<Rightarrow> 'w response \<Rightarrow> 'w
     \<Rightarrow> (unit outcome \<times> 'w response) \<times> 'w" where
  "debugResponse env c resp w =
     (if debug c then logResponse env resp (log c) w else ((Returns (), resp), w))"

text \<open>
  \<open>defer resp.Body.Close()\<close>: the body is the one \<open>resp\<close> holds when the \<open>defer\<close>
  statement runs; the call is made when \<open>DoRequest\<close> leaves, by return or by panic,
  and what \<open>Close\<close> returns is dropped.
\<close>

definition deferredClose :: "'w body \<Rightarrow> 'a outcome \<times> 'w \<Rightarrow> 'a outcome \<times> 'w" where
  "deferredClose b r = (case r of (out, w) \<Rightarrow> (out, snd (Close b w)))"

text \<open>
  The statements of \<open>DoRequest\<close> after the \<open>defer\<close>: the debug dump, the validator,
  the parser.
\<close>

definition validateAndParse ::
  "('w, 'c, 'd) env \<Rightarrow> 'w Client \<Rightarrow> 'w ResponseParser \<Rightarrow> 'w response \<Rightarrow> 'w
     \<Rightarrow> error option outcome \<times> 'w" where
  "validateAndParse env c parser resp w =
     (case debugResponse env c resp w of
        ((Panics, resp1), w1) \<Rightarrow> (Panics, w1)
      | ((Returns u, resp1), w1) \<Rightarrow>
          (case validateResponseFn c (Some resp1) w1 of
             (Panics, w2) \<Rightarrow> (Panics, w2)
           | (Returns (Some err), w2) \<Rightarrow> (Returns (Some err), w2)
           | (Returns None, w2) \<Rightarrow> parser (Some resp1) w2))"

text \<open>
  The statements of \<open>DoRequest\<close> from the debug dump of the request on: the dump,
  the transport's \<open>Do\<close>, the \<open>defer\<close>, and the rest under the deferred call.
  \<open>resp.Body\<close> on a nil \<open>resp\<close> that came with a nil error panics.
\<close>

definition dispatch ::
  "('w, 'c, 'd) env \<Rightarrow> 'w Client \<Rightarrow> 'w ResponseParser \<Rightarrow> request option \<Rightarrow> 'w
     \<Rightarrow> error option outcome \<times> 'w" where
  "dispatch env c parser req w =
     (case debugRequest env c req w of
        (Panics, w1) \<Rightarrow> (Panics, w1)
      | (Returns u, w1) \<Rightarrow>
          (case httpClient c req w1 of
             (Panics, w2) \<Rightarrow> (Panics, w2)
           | (Returns (resp, Some err), w2) \<Rightarrow> (Returns (Some err), w2)
           | (Returns (None, None), w2) \<Rightarrow> (Panics, w2)
           | (Returns (Some resp, None), w2) \<Rightarrow>
               deferredClose (Body_resp resp) (validateAndParse env c parser resp w2)))"

definition DoRequest ::
  "('w, 'c, 'd) env \<Rightarrow> 'w Client \<Rightarrow> 'c \<Rightarrow> string \<Rightarrow> string \<Rightarrow> 'w ResponseParser
     \<Rightarrow> 'w RequestOption list \<Rightarrow> 'w \<Rightarrow> error option outcome \<times> 'w" where
  "DoRequest env c ctx method path parser options w =
     (case newRequestWithContext env ctx method (endpoint c @ path) w of
        (Inl err, w0) \<Rightarrow> (Returns (Some err), w0)
      | (Inr req, w0) \<Rightarrow>
          (case applyRequestOptions (requestOptionsChain c) (Some req) w0 of
             (Panics, w1) \<Rightarrow> (Panics, w1)
           | (Returns (Some err, req1), w1) \<Rightarrow> (Returns (Some err), w1)
           | (Returns (None, req1), w1) \<Rightarrow>
               (case applyRequestOptions options req1 w1 of
                  (Panics, w2) \<Rightarrow> (Panics, w2)
                | (Returns (Some err, req2), w2) \<Rightarrow> (Returns (Some err), w2)
                | (Returns (None, req2), w2) \<Rightarrow> dispatch env c parser req2 w2)))"

text \<open>The convenience wrappers; \<open>http.MethodGet\<close> is \<open>"GET"\<close>.\<close>

definition DoRequestJson ::
  "('w, 'c, 'd) env \<Rightarrow> 'w Client \<Rightarrow> 'c \<Rightarrow> string \<Rightarrow> string \<Rightarrow> 'd option
     \<Rightarrow> 'w RequestOption list \<Rightarrow> 'w \<Rightarrow> error option outcome \<times> 'w" where
  "DoRequestJson env c ctx method path intf options w =
     DoRequest env c ctx method path (JsonParser env intf) options w"

definition GetJson ::
  "('w, 'c, 'd) env \<Rightarrow> 'w Client \<Rightarrow> 'c \<Rightarrow> string \<Rightarrow> 'd option
     \<Rightarrow> 'w RequestOption list \<Rightarrow> 'w \<Rightarrow> error option outcome \<times> 'w" where
  "GetJson env c ctx path intf options w =
     DoRequestJson env c ctx ''GET'' path intf options w"

definition DoRequestNoBody ::
  "('w, 'c, 'd) env \<Rightarrow> 'w Client \<Rightarrow> 'c \<Rightarrow> string \<Rightarrow> string
     \<Rightarrow> 'w RequestOption list \<Rightarrow> 'w \<Rightarrow> error option outcome \<times> 'w" where
  "DoRequestNoBody env c ctx method path options w =
     DoRequest env c ctx method path (NoBodyParser env (log c)) options w"

definition Get ::
  "('w, 'c, 'd) env \<Rightarrow> 'w Client \<Rightarrow> 'c \<Rightarrow> string
     \<Rightarrow> 'w RequestOption list \<Rightarrow> 'w \<Rightarrow> error option outcome \<times> 'w" where
  "Get env c ctx path options w = DoRequestNoBody env c ctx ''GET'' path options w"

definition DoRequestString ::
  "('w, 'c, 'd) env \<Rightarrow> 'w Client \<Rightarrow> 'c \<Rightarrow> string \<Rightarrow> string \<Rightarrow> 'w dst
     \<Rightarrow> 'w RequestOption list \<Rightarrow> 'w \<Rightarrow> error option outcome \<times> 'w" where
  "DoRequestString env c ctx method path out options w =
     DoRequest env c ctx method path (RawStringParser out) options w"


section \<open>Test doubles\<close>

text \<open>
  A world for running the pipeline on concrete inputs, in the manner of the
  repository's example (a local server behind the client): the store of header maps
  with its next unused address, the unread bytes of the response stream, the number of
  \<open>Close\<close> calls the stream has received, the bytes of the copy that a dump leaves in
  place of the stream, a journal that the doubles write to when they are called, and
  the place a parser's destination points to.
\<close>

record sim = store +
  fresh :: nat
  stream :: string
  closes :: nat
  copy :: string
  journal :: "string list"
  dest :: string

definition sim0 :: sim where
  "sim0 = \<lparr>headerMaps = (\<lambda>a. Map.empty), fresh = 0, stream = [], closes = 0, copy = [],
            journal = [], dest = []\<rparr>"

definition simBody :: "sim body" where
  "simBody =
     \<lparr>ReadAll = (\<lambda>w. ((stream w, None), w\<lparr>stream := []\<rparr>)),
      Close = (\<lambda>w. (None, w\<lparr>closes := Suc (closes w)\<rparr>))\<rparr>"

definition simResponse :: "int \<Rightarrow> string \<Rightarrow> string \<Rightarrow> sim response" where
  "simResponse code status text =
     \<lparr>StatusCode = code, Status_resp = status,
      ContentLength = int (length text), Body_resp = simBody\<rparr>"

text \<open>A transport that answers every request with the given status and body.\<close>

definition simServer :: "int \<Rightarrow> string \<Rightarrow> string \<Rightarrow> sim httpClient" where
  "simServer code status text req w =
     (Returns (Some (simResponse code status text), None),
      w\<lparr>stream := text, journal := journal w @ [''Do'']\<rparr>)"

text \<open>
  A transport that returns a response together with an error, as \<open>http.Client.Do\<close>
  does when \<open>CheckRedirect\<close> fails.
\<close>

definition simServerWithError :: "int \<Rightarrow> string \<Rightarrow> string \<Rightarrow> sim httpClient" where
  "simServerWithError code status text req w =
     (Returns (Some (simResponse code status text), Some (External ''redirect refused'')),
      w\<lparr>stream := text, journal := journal w @ [''Do'']\<rparr>)"

text \<open>
  A transport that records the Authorization header of the request it is given, and
  answers 200 with an empty body.
\<close>

definition simAuthServer :: "sim httpClient" where
  "simAuthServer req w =
     (Returns (Some (simResponse 200 ''200 OK'' []), None),
      w\<lparr>stream := [],
        journal := journal w @
          (case req of
             None \<Rightarrow> [''nil request'']
           | Some r \<Rightarrow>
               (case headersOf r w of
                  None \<Rightarrow> [''nil header map'']
                | Some m \<Rightarrow>
                    (case m ''Authorization'' of
                       None \<Rightarrow> [''no Authorization'']
                     | Some vs \<Rightarrow> vs)))\<rparr>)"

definition simLogger :: "sim logger" where
  "simLogger =
     \<lparr>Infof = (\<lambda>s w. w\<lparr>journal := journal w @ [''Infof'']\<rparr>),
      WithError_Error = (\<lambda>e s w. w\<lparr>journal := journal w @ [''Error'']\<rparr>)\<rparr>"

text \<open>\<open>http.NewRequestWithContext\<close>: the request, with a new empty header map.\<close>

definition simNewRequest :: "unit \<Rightarrow> string \<Rightarrow> string \<Rightarrow> sim \<Rightarrow> (error + request) \<times> sim" where
  "simNewRequest ctx method url w =
     (Inr \<lparr>Method = method, URL = url, Header = Some (fresh w)\<rparr>,
      w\<lparr>headerMaps := (headerMaps w)(fresh w := Map.empty), fresh := Suc (fresh w)\<rparr>)"

text \<open>
  \<open>httputil.DumpResponse(resp, true)\<close>: it reads the body to its end, closes it, and
  leaves in \<open>resp.Body\<close> a copy of the bytes read, behind a closer that does nothing.
\<close>

definition copyBody :: "sim body" where
  "copyBody =
     \<lparr>ReadAll = (\<lambda>w. ((copy w, None), w\<lparr>copy := []\<rparr>)),
      Close = (\<lambda>w. (None, w))\<rparr>"

definition simDumpResponse ::
  "sim response \<Rightarrow> sim \<Rightarrow> ((string \<times> error option) \<times> sim response) \<times> sim" where
  "simDumpResponse resp w =
     (case ReadAll (Body_resp resp) w of
        ((body, Some err), w1) \<Rightarrow> ((([], Some err), resp), w1)
      | ((body, None), w1) \<Rightarrow>
          (case Close (Body_resp resp) w1 of
             (Some err, w2) \<Rightarrow> ((([], Some err), resp), w2)
           | (None, w2) \<Rightarrow>
               (((Status_resp resp @ body, None), resp\<lparr>Body_resp := copyBody\<rparr>),
                w2\<lparr>copy := body\<rparr>)))"

definition simEnv :: "(sim, unit, unit) env" where
  "simEnv =
     \<lparr>newRequestWithContext = simNewRequest,
      dumpRequestOut = (\<lambda>req w. ((''request'', None), w)),
      dumpResponse = simDumpResponse,
      jsonDecode = (\<lambda>b d w. (None, snd (ReadAll b w))),
      defaultHttpClient = simServer 200 ''200 OK'' [],
      newLogger = simLogger\<rparr>"

text \<open>A request option, a validator and a parser that record their call.\<close>

definition noting :: "string \<Rightarrow> sim RequestOption" where
  "noting s req w = (Returns (None, req), w\<lparr>journal := journal w @ [s]\<rparr>)"

definition notingValidator :: "sim ValidateResponse" where
  "notingValidator resp w = ResponseValidator resp (w\<lparr>journal := journal w @ [''validate'']\<rparr>)"

definition notingParser :: "sim ResponseParser \<Rightarrow> sim ResponseParser" where
  "notingParser p resp w = p resp (w\<lparr>journal := journal w @ [''parse'']\<rparr>)"

definition toDest :: "sim dst" where
  "toDest = Some (\<lambda>s w. w\<lparr>dest := s\<rparr>)"

text \<open>
  A client as the example builds it: a local server that answers with the given
  status and body, the default validator with its call recorded, then further options.
\<close>

definition demoClient :: "int \<Rightarrow> string \<Rightarrow> string \<Rightarrow> sim Option list \<Rightarrow> sim Client" where
  "demoClient code status text options =
     NewClient simEnv ''http://host''
       ([WithHttpClient (simServer code status text), WithResponseValidator notingValidator]
        @ options)"

text \<open>
  The request that \<open>demoClient\<close> builds for \<open>GET /x\<close> in the world \<open>sim0\<close>, and the
  world once it is built.
\<close>

definition demoRequest :: request where
  "demoRequest = \<lparr>Method = ''GET'', URL = ''http://host/x'', Header = Some 0\<rparr>"

definition simBuilt :: sim where
  "simBuilt = sim0\<lparr>headerMaps := (headerMaps sim0)(0 := Map.empty), fresh := Suc 0\<rparr>"

text \<open>
  A caller's world: at address 0 a header map with one entry, \<open>Accept: text/plain\<close>.
  A request built in it gets the map at address 1.
\<close>

definition simCaller :: sim where
  "simCaller =
     sim0\<lparr>headerMaps := (headerMaps sim0)(0 := [''Accept'' \<mapsto> [''text/plain'']]),
          fresh := Suc 0\<rparr>"

text \<open>
  A parser written by a caller that closes the body itself when it is done:
  \<open>func(resp *http.Response) error { resp.Body.Close(); return nil }\<close>
\<close>

definition closingParser :: "sim ResponseParser" where
  "closingParser resp w =
     (case resp of
        None \<Rightarrow> (Panics, w)
      | Some r \<Rightarrow> (Returns None, snd (Close (Body_resp r) w)))"

section \<open>Facts about the pipeline\<close>

text \<open>Running a chain that is the concatenation of two: the first, then the second.\<close>

lemma applyRequestOptions_append:
  "applyRequestOptions (xs @ ys) req w =
     (case applyRequestOptions xs req w of
        (Panics, w1) \<Rightarrow> (Panics, w1)
      | (Returns (Some e, r1), w1) \<Rightarrow> (Returns (Some e, r1), w1)
      | (Returns (None, r1), w1) \<Rightarrow> applyRequestOptions ys r1 w1)"
  by (induction xs arbitrary: req w) (auto split: prod.splits outcome.splits option.splits)

lemma validateAndParse_chain_irrelevant:
  "validateAndParse env (c\<lparr>requestOptionsChain := ch\<rparr>) parser resp w =
     validateAndParse env c parser resp w"
  by (simp add: validateAndParse_def debugResponse_def
        cong: prod.case_cong outcome.case_cong option.case_cong)

lemma dispatch_chain_irrelevant:
  "dispatch env (c\<lparr>requestOptionsChain := ch\<rparr>) parser req w = dispatch env c parser req w"
  by (simp add: dispatch_def debugRequest_def validateAndParse_chain_irrelevant
        cong: prod.case_cong outcome.case_cong option.case_cong)

text \<open>
  The two loops of \<open>DoRequest\<close> are one pass over the global chain followed by the
  per-call options.
\<close>

lemma DoRequest_single_chain:
  "DoRequest env c ctx method path parser options w =
     (case newRequestWithContext env ctx method (endpoint c @ path) w of
        (Inl err, w0) \<Rightarrow> (Returns (Some err), w0)
      | (Inr req, w0) \<Rightarrow>
          (case applyRequestOptions (requestOptionsChain c @ options) (Some req) w0 of
             (Panics, w1) \<Rightarrow> (Panics, w1)
           | (Returns (Some err, req1), w1) \<Rightarrow> (Returns (Some err), w1)
           | (Returns (None, req1), w1) \<Rightarrow> dispatch env c parser req1 w1))"
  by (auto simp: DoRequest_def applyRequestOptions_append
           split: sum.splits prod.splits outcome.splits option.splits)

lemma DoRequest_reaches_dispatch:
  assumes "newRequestWithContext env ctx method (endpoint c @ path) w = (Inr req, w0)"
    and "applyRequestOptions (requestOptionsChain c) (Some req) w0 = (Returns (None, req1), w1)"
    and "applyRequestOptions options req1 w1 = (Returns (None, req2), w2)"
  shows "DoRequest env c ctx method path parser options w = dispatch env c parser req2 w2"
  using assms by (simp add: DoRequest_def)

lemma dispatch_response:
  assumes "debugRequest env c req2 w2 = (Returns (), w3)"
    and "httpClient c req2 w3 = (Returns (Some resp, None), w4)"
  shows "dispatch env c parser req2 w2 =
           deferredClose (Body_resp resp) (validateAndParse env c parser resp w4)"
  using assms by (simp add: dispatch_def)

lemma DoRequest_reaches_validation:
  assumes "newRequestWithContext env ctx method (endpoint c @ path) w = (Inr req, w0)"
    and "applyRequestOptions (requestOptionsChain c) (Some req) w0 = (Returns (None, req1), w1)"
    and "applyRequestOptions options req1 w1 = (Returns (None, req2), w2)"
    and "debugRequest env c req2 w2 = (Returns (), w3)"
    and "httpClient c req2 w3 = (Returns (Some resp, None), w4)"
  shows "DoRequest env c ctx method path parser options w =
           deferredClose (Body_resp resp) (validateAndParse env c parser resp w4)"
  using assms by (simp add: DoRequest_reaches_dispatch dispatch_response)

lemma fst_deferredClose: "fst (deferredClose b r) = fst r"
  by (simp add: deferredClose_def split: prod.splits)

lemma NoBodyParser_returns_nil:
  "\<exists>w'. NoBodyParser env l (Some r) w = (Returns None, w')"
  by (auto simp: NoBodyParser_def logResponse_def logInfof_def logWithErrorError_def
           split: prod.splits option.splits outcome.splits)

lemma validateAndParse_NoBodyParser:
  "fst (validateAndParse env c (NoBodyParser env l) resp w) =
   fst (validateAndParse env c (\<lambda>resp w. (Returns None, w)) resp w)"
proof -
  have "fst (NoBodyParser env l (Some r) v) = Returns None" for r v
    using NoBodyParser_returns_nil[of env l r v] by auto
  then show ?thesis
    by (simp add: validateAndParse_def split: prod.splits outcome.splits option.splits)
qed

lemma dispatch_NoBodyParser:
  "fst (dispatch env c (NoBodyParser env l) req w) =
   fst (dispatch env c (\<lambda>resp w. (Returns None, w)) req w)"
  by (simp add: dispatch_def fst_deferredClose validateAndParse_NoBodyParser
           split: prod.splits outcome.splits option.splits)

text \<open>What the basic-auth option does to a request with a header map.\<close>

lemma basicAuthRequestOption_writes:
  "Header req = Some a \<Longrightarrow>
     basicAuthRequestOption username password (Some req) w =
       (Returns (None, Some req),
        w\<lparr>headerMaps := (headerMaps w)
            (a := (headerMaps w a)
               (''Authorization'' \<mapsto> [''Basic '' @ basicAuth username password]))\<rparr>)"
  by (simp add: basicAuthRequestOption_def SetBasicAuth_def)

lemma basicAuth_user_secret: "basicAuth ''user'' ''secret'' = ''dXNlcjpzZWNyZXQ=''"
  by (simp add: basicAuth_def base64_def base64Alphabet_def)

text \<open>The test doubles, unfolded; and the run of \<open>demoClient\<close> up to the validator.\<close>

lemmas sim_defs = demoClient_def NewClient_def simEnv_def WithHttpClient_def
  WithResponseValidator_def WithRequestOptions_def simServer_def simResponse_def simBody_def
  sim0_def simBuilt_def demoRequest_def simNewRequest_def noting_def notingValidator_def
  notingParser_def toDest_def simLogger_def debugRequest_def debugResponse_def
  ResponseValidator_def RawStringParser_def

lemma demo_prefix:
  "newRequestWithContext simEnv () ''GET'' (endpoint (demoClient code status text []) @ ''/x'')
       sim0
     = (Inr demoRequest, simBuilt)"
  "applyRequestOptions (requestOptionsChain (demoClient code status text []))
       (Some demoRequest) simBuilt
     = (Returns (None, Some demoRequest), simBuilt)"
  "applyRequestOptions [] (Some demoRequest) simBuilt
     = (Returns (None, Some demoRequest), simBuilt)"
  "debugRequest simEnv (demoClient code status text []) (Some demoRequest) simBuilt
     = (Returns (), simBuilt)"
  "httpClient (demoClient code status text []) (Some demoRequest) simBuilt
     = (Returns (Some (simResponse code status text), None),
        simBuilt\<lparr>stream := text, journal := [''Do'']\<rparr>)"
  "debugResponse simEnv (demoClient code status text []) (simResponse code status text)
       (simBuilt\<lparr>stream := text, journal := [''Do'']\<rparr>)
     = ((Returns (), simResponse code status text),
        simBuilt\<lparr>stream := text, journal := [''Do'']\<rparr>)"
  by (simp_all add: sim_defs)

lemma demo_verdicts:
  "validateResponseFn (demoClient 404 ''404 Not Found'' ''not found'' [])
       (Some (simResponse 404 ''404 Not Found'' ''not found''))
       (simBuilt\<lparr>stream := ''not found'', journal := [''Do'']\<rparr>)
     = (Returns (Some (StatusError
          \<lparr>Code = 404, Status = ''404 Not Found'', Body = ''not found''\<rparr>)),
        simBuilt\<lparr>stream := [], journal := [''Do'', ''validate'']\<rparr>)"
  "validateResponseFn (demoClient 200 ''200 OK'' ''hello'' [])
       (Some (simResponse 200 ''200 OK'' ''hello''))
       (simBuilt\<lparr>stream := ''hello'', journal := [''Do'']\<rparr>)
     = (Returns None, simBuilt\<lparr>stream := ''hello'', journal := [''Do'', ''validate'']\<rparr>)"
  by (simp_all add: sim_defs)

section \<open>The default validator\<close>

text \<open>
  Claim C1. For every response, \<open>ResponseValidator\<close> returns an error exactly when
  the status code is greater than 300: at 300 and below it returns nil and leaves the
  stream untouched, above 300 it returns an error. A \<open>StatusCodeError\<close> that it
  returns carries the status code of the response and, as its body, all the bytes that
  reading the stream to its end delivers; and it does return that
  \<open>StatusCodeError\<close> whenever the stream is read without error (a stream that
  fails makes it return the wrapped read error instead).
\<close>

theorem ResponseValidator_rejects_above_300:
  "(StatusCode r \<le> 300 \<longrightarrow> ResponseValidator (Some r) w = (Returns None, w)) \<and>
   (300 < StatusCode r \<longrightarrow>
      (\<exists>e w'. ResponseValidator (Some r) w = (Returns (Some e), w')) \<and>
      (\<forall>t w'. ResponseValidator (Some r) w = (Returns (Some (StatusError t)), w') \<longrightarrow>
         Code t = StatusCode r \<and> Body t = fst (fst (ReadAll (Body_resp r) w))) \<and>
      (snd (fst (ReadAll (Body_resp r) w)) = None \<longrightarrow>
         ResponseValidator (Some r) w =
           (Returns (Some (StatusError
              \<lparr>Code = StatusCode r, Status = Status_resp r,
               Body = fst (fst (ReadAll (Body_resp r) w))\<rparr>)),
            snd (ReadAll (Body_resp r) w))))"
  by (auto simp: ResponseValidator_def split: prod.splits option.splits)

theorem ResponseValidator_rejects_above_300_witness:
  "StatusCode (simResponse 300 ''300 Multiple Choices'' ''a'') \<le> 300 \<and>
   ResponseValidator (Some (simResponse 300 ''300 Multiple Choices'' ''a''))
       (sim0\<lparr>stream := ''a''\<rparr>)
     = (Returns None, sim0\<lparr>stream := ''a''\<rparr>) \<and>
   300 < StatusCode (simResponse 301 ''301 Moved Permanently'' ''moved'') \<and>
   snd (fst (ReadAll (Body_resp (simResponse 301 ''301 Moved Permanently'' ''moved''))
                (sim0\<lparr>stream := ''moved''\<rparr>))) = None \<and>
   ResponseValidator (Some (simResponse 301 ''301 Moved Permanently'' ''moved''))
       (sim0\<lparr>stream := ''moved''\<rparr>)
     = (Returns (Some (StatusError
          \<lparr>Code = 301, Status = ''301 Moved Permanently'', Body = ''moved''\<rparr>)), sim0)"
  using ResponseValidator_rejects_above_300
          [of "simResponse 300 ''300 Multiple Choices'' ''a''" "sim0\<lparr>stream := ''a''\<rparr>"]
        ResponseValidator_rejects_above_300
          [of "simResponse 301 ''301 Moved Permanently'' ''moved''"
              "sim0\<lparr>stream := ''moved''\<rparr>"]
  by (simp add: simResponse_def simBody_def sim0_def)

section \<open>Order of the request options\<close>

text \<open>
  Claim C2. For every call to \<open>DoRequest\<close> on a client whose global chain is
  \<open>[A, B]\<close>, with the per-call options \<open>[C]\<close>: \<open>A\<close> is applied to the fresh
  request, \<open>B\<close> to the request and world that \<open>A\<close> leaves, \<open>C\<close> to those that
  \<open>B\<close> leaves, and the request that \<open>C\<close> leaves is the one dispatched. An option
  that fails or panics ends the call there, so no later option runs before an earlier one.
\<close>

theorem DoRequest_applies_global_then_call_options:
  assumes "requestOptionsChain c = [A, B]"
  shows "DoRequest env c ctx method path parser [C] w =
     (case newRequestWithContext env ctx method (endpoint c @ path) w of
        (Inl err, w0) \<Rightarrow> (Returns (Some err), w0)
      | (Inr req, w0) \<Rightarrow>
         (case A (Some req) w0 of
            (Panics, w1) \<Rightarrow> (Panics, w1)
          | (Returns (Some e, r1), w1) \<Rightarrow>
              (Returns (Some (Wrapf ''failed to apply global request option: %w'' e)), w1)
          | (Returns (None, r1), w1) \<Rightarrow>
             (case B r1 w1 of
                (Panics, w2) \<Rightarrow> (Panics, w2)
              | (Returns (Some e, r2), w2) \<Rightarrow>
                  (Returns (Some (Wrapf ''failed to apply global request option: %w'' e)), w2)
              | (Returns (None, r2), w2) \<Rightarrow>
                 (case C r2 w2 of
                    (Panics, w3) \<Rightarrow> (Panics, w3)
                  | (Returns (Some e, r3), w3) \<Rightarrow>
                      (Returns (Some (Wrapf ''failed to apply global request option: %w'' e)), w3)
                  | (Returns (None, r3), w3) \<Rightarrow> dispatch env c parser r3 w3))))"
  using assms
  by (auto simp: DoRequest_def split: sum.splits prod.splits outcome.splits option.splits)

theorem DoRequest_applies_global_then_call_options_witness:
  "requestOptionsChain (demoClient 200 ''200 OK'' ''hello''
       [WithRequestOptions [noting ''A'', noting ''B'']]) = [noting ''A'', noting ''B'']
   \<and> journal (snd (DoRequest simEnv
        (demoClient 200 ''200 OK'' ''hello'' [WithRequestOptions [noting ''A'', noting ''B'']])
        () ''GET'' ''/x'' (notingParser (RawStringParser toDest)) [noting ''C''] sim0))
     = [''A'', ''B'', ''C'', ''Do'', ''validate'', ''parse'']"
proof -
  let ?c = "demoClient 200 ''200 OK'' ''hello'' [WithRequestOptions [noting ''A'', noting ''B'']]"
  have chain: "requestOptionsChain ?c = [noting ''A'', noting ''B'']"
    by (simp add: demoClient_def NewClient_def WithHttpClient_def WithResponseValidator_def
          WithRequestOptions_def)
  show ?thesis
    using chain
      DoRequest_applies_global_then_call_options [OF chain, of simEnv "()" "''GET''" "''/x''"
        "notingParser (RawStringParser toDest)" "noting ''C''" sim0]
    by (simp add: sim_defs dispatch_def deferredClose_def validateAndParse_def)
qed

section \<open>Validation before parsing\<close>

text \<open>
  Claim C3. On every call to \<open>DoRequest\<close> that reaches validation (the request is
  built, the options succeed, the transport returns a response and no error) and whose
  validator returns, one of two things happens, by the validator's verdict. If the
  validator rejects with an error, \<open>DoRequest\<close> returns that error, and it does so
  whatever the parser is: the world it leaves is the validator's with the deferred
  \<open>Close\<close> applied, so the parser has not run. If the validator accepts, the parser is
  applied once, to the response and to the world the validator leaves, and
  \<open>DoRequest\<close> returns the parser's result.
\<close>

theorem DoRequest_validator_gates_parser:
  assumes "newRequestWithContext env ctx method (endpoint c @ path) w = (Inr req, w0)"
    and "applyRequestOptions (requestOptionsChain c) (Some req) w0 = (Returns (None, req1), w1)"
    and "applyRequestOptions options req1 w1 = (Returns (None, req2), w2)"
    and "debugRequest env c req2 w2 = (Returns (), w3)"
    and "httpClient c req2 w3 = (Returns (Some resp, None), w4)"
    and "debugResponse env c resp w4 = ((Returns (), resp1), w5)"
    and "validateResponseFn c (Some resp1) w5 = (Returns verdict, w6)"
  shows "(case verdict of
            Some err \<Rightarrow>
              (\<forall>p. DoRequest env c ctx method path p options w =
                     (Returns (Some err), snd (Close (Body_resp resp) w6)))
          | None \<Rightarrow>
              DoRequest env c ctx method path parser options w =
                (fst (parser (Some resp1) w6),
                 snd (Close (Body_resp resp) (snd (parser (Some resp1) w6)))))"
  using assms
  by (auto simp: DoRequest_reaches_validation deferredClose_def validateAndParse_def
           split: option.splits prod.splits)

theorem DoRequest_validator_gates_parser_witness:
  "DoRequest simEnv (demoClient 404 ''404 Not Found'' ''not found'' []) () ''GET'' ''/x''
       (notingParser (RawStringParser toDest)) [] sim0
     = (Returns (Some (StatusError
          \<lparr>Code = 404, Status = ''404 Not Found'', Body = ''not found''\<rparr>)),
        simBuilt\<lparr>closes := 1, journal := [''Do'', ''validate'']\<rparr>)
   \<and> HTTPStatusCode \<lparr>Code = 404, Status = ''404 Not Found'', Body = ''not found''\<rparr> = 404
   \<and> DoRequest simEnv (demoClient 200 ''200 OK'' ''hello'' []) () ''GET'' ''/x''
       (notingParser (RawStringParser toDest)) [] sim0
     = (Returns None,
        simBuilt\<lparr>closes := 1, journal := [''Do'', ''validate'', ''parse''],
                 dest := ''hello''\<rparr>)"
  using DoRequest_validator_gates_parser [OF demo_prefix demo_verdicts(1),
          of "notingParser (RawStringParser toDest)"]
        DoRequest_validator_gates_parser [OF demo_prefix demo_verdicts(2),
          of "notingParser (RawStringParser toDest)"]
  by (simp add: HTTPStatusCode_def simResponse_def simBody_def notingParser_def
        RawStringParser_def toDest_def simBuilt_def sim0_def)

section \<open>Closing the response body\<close>

text \<open>
  Claim C4, as the code has it. For every call to \<open>DoRequest\<close> in which the transport
  returns a response and no error, \<open>DoRequest\<close> itself calls \<open>Close\<close> on the body of
  that response once, as its last step, on every way out of the stage that follows
  (the debug dump, the validator rejecting, the parser succeeding or failing, a panic
  of any of them): its outcome is the outcome of that stage, and the world it leaves
  is the world that stage leaves with that one \<open>Close\<close> applied. This holds whatever
  the stage is. And for any count of the \<open>Close\<close> calls on that body, if the stage
  itself leaves the count as it was (the dump, the validator and the parser do not
  close the stream themselves), the call ends with the count one higher than the
  transport left it.
\<close>

theorem DoRequest_defers_one_Close:
  assumes "newRequestWithContext env ctx method (endpoint c @ path) w = (Inr req, w0)"
    and "applyRequestOptions (requestOptionsChain c) (Some req) w0 = (Returns (None, req1), w1)"
    and "applyRequestOptions options req1 w1 = (Returns (None, req2), w2)"
    and "debugRequest env c req2 w2 = (Returns (), w3)"
    and "httpClient c req2 w3 = (Returns (Some resp, None), w4)"
  shows "DoRequest env c ctx method path parser options w =
           (fst (validateAndParse env c parser resp w4),
            snd (Close (Body_resp resp) (snd (validateAndParse env c parser resp w4))))
         \<and> (\<forall>count :: _ \<Rightarrow> nat.
               (\<forall>v. count (snd (Close (Body_resp resp) v)) = Suc (count v)) \<longrightarrow>
               count (snd (validateAndParse env c parser resp w4)) = count w4 \<longrightarrow>
               count (snd (DoRequest env c ctx method path parser options w)) = Suc (count w4))"
  using assms
  by (auto simp: DoRequest_reaches_validation deferredClose_def split: prod.splits)

theorem DoRequest_defers_one_Close_witness:
  "closes (snd (DoRequest simEnv (demoClient 404 ''404 Not Found'' ''not found'' []) () ''GET'' ''/x''
       (notingParser (RawStringParser toDest)) [] sim0)) = 1
   \<and> closes (snd (DoRequest simEnv (demoClient 200 ''200 OK'' ''hello'' []) () ''GET'' ''/x''
       (notingParser (RawStringParser toDest)) [] sim0)) = 1
   \<and> closes (snd (DoRequest simEnv (demoClient 200 ''200 OK'' ''hello'' []) () ''GET'' ''/x''
       (notingParser (RawStringParser None)) [] sim0)) = 1
   \<and> DoRequest simEnv (demoClient 200 ''200 OK'' ''hello'' []) () ''GET'' ''/x''
       closingParser [] sim0
     = (Returns None,
        snd (Close simBody (simBuilt\<lparr>stream := ''hello'', closes := 1,
                                      journal := [''Do'', ''validate'']\<rparr>)))"
proof -
  note one_Close = DoRequest_defers_one_Close [OF demo_prefix(1-5)]
  note counted = one_Close [THEN conjunct2, rule_format, where count = closes]
  have close: "closes (snd (Close (Body_resp (simResponse code status body)) v)) = Suc (closes v)"
    for code status body v
    by (simp add: simResponse_def simBody_def)
  have stage:
    "validateAndParse simEnv (demoClient 404 ''404 Not Found'' ''not found'' [])
        (notingParser (RawStringParser toDest)) (simResponse 404 ''404 Not Found'' ''not found'')
        (simBuilt\<lparr>stream := ''not found'', journal := [''Do'']\<rparr>)
      = (Returns (Some (StatusError
            \<lparr>Code = 404, Status = ''404 Not Found'', Body = ''not found''\<rparr>)),
         simBuilt\<lparr>stream := [], journal := [''Do'', ''validate'']\<rparr>)"
    "validateAndParse simEnv (demoClient 200 ''200 OK'' ''hello'' [])
        (notingParser (RawStringParser toDest)) (simResponse 200 ''200 OK'' ''hello'')
        (simBuilt\<lparr>stream := ''hello'', journal := [''Do'']\<rparr>)
      = (Returns None,
         simBuilt\<lparr>stream := [], journal := [''Do'', ''validate'', ''parse''],
                  dest := ''hello''\<rparr>)"
    "validateAndParse simEnv (demoClient 200 ''200 OK'' ''hello'' [])
        (notingParser (RawStringParser None)) (simResponse 200 ''200 OK'' ''hello'')
        (simBuilt\<lparr>stream := ''hello'', journal := [''Do'']\<rparr>)
      = (Returns (Some (Errorf ''RawStringParser function error: %v | %v'')),
         simBuilt\<lparr>stream := ''hello'', journal := [''Do'', ''validate'', ''parse'']\<rparr>)"
    "validateAndParse simEnv (demoClient 200 ''200 OK'' ''hello'' [])
        closingParser (simResponse 200 ''200 OK'' ''hello'')
        (simBuilt\<lparr>stream := ''hello'', journal := [''Do'']\<rparr>)
      = (Returns None,
         simBuilt\<lparr>stream := ''hello'', closes := 1, journal := [''Do'', ''validate'']\<rparr>)"
    by (simp_all add: validateAndParse_def closingParser_def sim_defs)
  have kept:
    "closes (snd (validateAndParse simEnv (demoClient 404 ''404 Not Found'' ''not found'' [])
        (notingParser (RawStringParser toDest)) (simResponse 404 ''404 Not Found'' ''not found'')
        (simBuilt\<lparr>stream := ''not found'', journal := [''Do'']\<rparr>)))
      = closes (simBuilt\<lparr>stream := ''not found'', journal := [''Do'']\<rparr>)"
    "closes (snd (validateAndParse simEnv (demoClient 200 ''200 OK'' ''hello'' [])
        (notingParser (RawStringParser toDest)) (simResponse 200 ''200 OK'' ''hello'')
        (simBuilt\<lparr>stream := ''hello'', journal := [''Do'']\<rparr>)))
      = closes (simBuilt\<lparr>stream := ''hello'', journal := [''Do'']\<rparr>)"
    "closes (snd (validateAndParse simEnv (demoClient 200 ''200 OK'' ''hello'' [])
        (notingParser (RawStringParser None)) (simResponse 200 ''200 OK'' ''hello'')
        (simBuilt\<lparr>stream := ''hello'', journal := [''Do'']\<rparr>)))
      = closes (simBuilt\<lparr>stream := ''hello'', journal := [''Do'']\<rparr>)"
    unfolding stage by simp_all
  show ?thesis
    using counted [OF close kept(1)] counted [OF close kept(2)] counted [OF close kept(3)]
          one_Close [THEN conjunct1, of 200 "''200 OK''" "''hello''" closingParser]
    unfolding stage by (simp add: simResponse_def simBuilt_def sim0_def)
qed

text \<open>
  Claim C4 as it is written fails in three ways. With a parser that closes the body
  when it is done, the stream has received two \<open>Close\<close> calls when \<open>DoRequest\<close>
  returns. With the client's debug flag set and a built-in parser, the dump of the
  response has closed the stream before the deferred \<open>Close\<close> does so again. And when
  the transport returns a response together with an error, \<open>DoRequest\<close> returns the
  error and the stream has received no \<open>Close\<close> call.
\<close>

theorem DoRequest_body_not_closed_exactly_once:
  "DoRequest simEnv (demoClient 200 ''200 OK'' ''hello'' []) () ''GET'' ''/x'' closingParser []
       sim0
     = (Returns None,
        simBuilt\<lparr>stream := ''hello'', closes := 2, journal := [''Do'', ''validate'']\<rparr>)
   \<and> DoRequest simEnv (demoClient 200 ''200 OK'' ''hello'' [WithDebug True]) () ''GET'' ''/x''
       (RawStringParser toDest) [] sim0
     = (Returns None,
        simBuilt\<lparr>closes := 2, journal := [''Infof'', ''Do'', ''Infof'', ''validate''],
                 dest := ''hello''\<rparr>)
   \<and> DoRequest simEnv
       (demoClient 302 ''302 Found'' ''moved''
          [WithHttpClient (simServerWithError 302 ''302 Found'' ''moved'')])
       () ''GET'' ''/x'' (RawStringParser toDest) [] sim0
     = (Returns (Some (External ''redirect refused'')),
        simBuilt\<lparr>stream := ''moved'', closes := 0, journal := [''Do'']\<rparr>)"
  by (simp add: DoRequest_def dispatch_def deferredClose_def validateAndParse_def
        closingParser_def WithDebug_def simServerWithError_def logRequest_def logResponse_def
        logInfof_def simDumpResponse_def copyBody_def sim_defs)

section \<open>The built-in parsers on nil\<close>

text \<open>
  Claim C5. The JSON, raw-string and raw-bytes parsers check \<open>resp == nil || dst == nil\<close>
  and return their \<open>fmt.Errorf\<close> error (\<open>sibling_parsers_check_nil\<close>).
  \<open>NoBodyParser\<close> has no such check: given a nil response it reads
  \<open>resp.ContentLength\<close> and panics, whatever the logger.
\<close>

theorem NoBodyParser_nil_response_panics:
  "NoBodyParser env l None w = (Panics, w)"
  by (simp add: NoBodyParser_def)

lemma sibling_parsers_check_nil:
  "resp = None \<or> d = None \<Longrightarrow>
     RawStringParser d resp w =
       (Returns (Some (Errorf ''RawStringParser function error: %v | %v'')), w)
   \<and> RawBodyParser d resp w =
       (Returns (Some (Errorf ''RawBodyParser function error: %v | %v'')), w)"
  "resp = None \<or> j = None \<Longrightarrow>
     JsonParser env j resp w =
       (Returns (Some (Errorf ''JsonParser function error: %v | %v'')), w)"
  by (auto simp: RawStringParser_def RawBodyParser_def JsonParser_def)

section \<open>The headers option\<close>

text \<open>
  Claim C6. For every non-nil header set \<open>h\<close> and non-nil request, the option
  \<open>WithHeadersOpt(h)\<close> returns no error and leaves the request with \<open>h\<close> as its
  header collection (the caller's map itself), whatever headers it had before; the
  other fields and the world, and with it the contents of \<open>h\<close>, are as they were.
\<close>

theorem WithHeadersOpt_replaces_headers:
  "WithHeadersOpt (Some h) (Some req) w = (Returns (None, Some (req\<lparr>Header := Some h\<rparr>)), w)
   \<and> Header (req\<lparr>Header := Some h\<rparr>) = Some h
   \<and> Method (req\<lparr>Header := Some h\<rparr>) = Method req
   \<and> URL (req\<lparr>Header := Some h\<rparr>) = URL req"
  by (simp add: WithHeadersOpt_def)

section \<open>A failing option stops the call before the transport\<close>

text \<open>
  Claim C7. If, during \<open>DoRequest\<close>, an option of the global chain or of the per-call
  options returns an error \<open>e\<close> (the options before it, global first, having run
  without error), then \<open>DoRequest\<close> returns \<open>e\<close> wrapped by
  \<open>"failed to apply global request option: %w"\<close>, and the world it leaves is the one
  the failing option left. This holds for every transport the client may have: the
  transport's \<open>Do\<close> is not called, nor is any later option.
\<close>

theorem DoRequest_option_error_before_transport:
  assumes "newRequestWithContext env ctx method (endpoint c @ path) w = (Inr req, w0)"
    and "requestOptionsChain c @ options = pre @ opt # post"
    and "applyRequestOptions pre (Some req) w0 = (Returns (None, req1), w1)"
    and "opt req1 w1 = (Returns (Some e, req2), w2)"
  shows "\<forall>t. DoRequest env (c\<lparr>httpClient := t\<rparr>) ctx method path parser options w =
           (Returns (Some (Wrapf ''failed to apply global request option: %w'' e)), w2)"
  using assms
  by (simp add: DoRequest_single_chain applyRequestOptions_append)

theorem DoRequest_option_error_before_transport_witness:
  "DoRequest simEnv
      ((demoClient 200 ''200 OK'' ''hello'' [WithRequestOptions [noting ''A'']])
         \<lparr>httpClient := simServer 200 ''200 OK'' ''hello''\<rparr>)
      () ''GET'' ''/x'' (notingParser (RawStringParser toDest))
      [WithHeadersOpt None, noting ''C''] sim0
     = (Returns (Some (Wrapf ''failed to apply global request option: %w''
                         (Errorf ''WithHeadersOpt error: %v | %v''))),
        simBuilt\<lparr>journal := [''A'']\<rparr>)"
proof -
  let ?c = "demoClient 200 ''200 OK'' ''hello'' [WithRequestOptions [noting ''A'']]"
  have built: "newRequestWithContext simEnv () ''GET'' (endpoint ?c @ ''/x'') sim0
                 = (Inr demoRequest, simBuilt)"
    by (simp add: sim_defs)
  have chain: "requestOptionsChain ?c @ [WithHeadersOpt None, noting ''C'']
                 = [noting ''A''] @ WithHeadersOpt None # [noting ''C'']"
    by (simp add: demoClient_def NewClient_def WithHttpClient_def WithResponseValidator_def
          WithRequestOptions_def)
  have before: "applyRequestOptions [noting ''A''] (Some demoRequest) simBuilt
                  = (Returns (None, Some demoRequest), simBuilt\<lparr>journal := [''A'']\<rparr>)"
    by (simp add: noting_def simBuilt_def sim0_def)
  have failed: "WithHeadersOpt None (Some demoRequest) (simBuilt\<lparr>journal := [''A'']\<rparr>)
                  = (Returns (Some (Errorf ''WithHeadersOpt error: %v | %v''), Some demoRequest),
                     simBuilt\<lparr>journal := [''A'']\<rparr>)"
    by (simp add: WithHeadersOpt_def)
  show ?thesis
    using DoRequest_option_error_before_transport [OF built chain before failed,
            of "notingParser (RawStringParser toDest)"]
    by simp
qed

section \<open>A nil destination fails in the parser, after the dispatch\<close>

text \<open>
  Claim C8. For every call to \<open>DoRequest\<close> with a parser built over a nil destination
  (\<open>JsonParser(nil)\<close>, \<open>RawStringParser(nil)\<close>, \<open>RawBodyParser(nil)\<close>) whose
  request is built and whose options succeed, the transport is called all the same:
  if it fails, its error is what \<open>DoRequest\<close> returns; if it returns a response, the
  validator runs, and its rejection is what \<open>DoRequest\<close> returns; only when the
  validator has accepted does \<open>DoRequest\<close> return the parser's \<open>fmt.Errorf\<close>
  error for the nil destination, in the world that the transport and the validator
  have left, with the body closed.
\<close>

theorem DoRequest_nil_destination_fails_after_dispatch:
  assumes "newRequestWithContext env ctx method (endpoint c @ path) w = (Inr req, w0)"
    and "applyRequestOptions (requestOptionsChain c) (Some req) w0 = (Returns (None, req1), w1)"
    and "applyRequestOptions options req1 w1 = (Returns (None, req2), w2)"
    and "debugRequest env c req2 w2 = (Returns (), w3)"
  shows "(\<forall>resp err w4. httpClient c req2 w3 = (Returns (resp, Some err), w4) \<longrightarrow>
            DoRequest env c ctx method path (JsonParser env None) options w
              = (Returns (Some err), w4)
          \<and> DoRequest env c ctx method path (RawStringParser None) options w
              = (Returns (Some err), w4)
          \<and> DoRequest env c ctx method path (RawBodyParser None) options w
              = (Returns (Some err), w4))
       \<and> (\<forall>resp w4 resp1 w5 verdict w6.
            httpClient c req2 w3 = (Returns (Some resp, None), w4) \<longrightarrow>
            debugResponse env c resp w4 = ((Returns (), resp1), w5) \<longrightarrow>
            validateResponseFn c (Some resp1) w5 = (Returns verdict, w6) \<longrightarrow>
            (case verdict of
               Some err \<Rightarrow>
                 DoRequest env c ctx method path (JsonParser env None) options w =
                   (Returns (Some err), snd (Close (Body_resp resp) w6))
               \<and> DoRequest env c ctx method path (RawStringParser None) options w =
                   (Returns (Some err), snd (Close (Body_resp resp) w6))
               \<and> DoRequest env c ctx method path (RawBodyParser None) options w =
                   (Returns (Some err), snd (Close (Body_resp resp) w6))
             | None \<Rightarrow>
                 DoRequest env c ctx method path (JsonParser env None) options w =
                   (Returns (Some (Errorf ''JsonParser function error: %v | %v'')),
                    snd (Close (Body_resp resp) w6))
               \<and> DoRequest env c ctx method path (RawStringParser None) options w =
                   (Returns (Some (Errorf ''RawStringParser function error: %v | %v'')),
                    snd (Close (Body_resp resp) w6))
               \<and> DoRequest env c ctx method path (RawBodyParser None) options w =
                   (Returns (Some (Errorf ''RawBodyParser function error: %v | %v'')),
                    snd (Close (Body_resp resp) w6))))"
  using assms
  by (auto simp: DoRequest_reaches_dispatch dispatch_def deferredClose_def validateAndParse_def
                 JsonParser_def RawStringParser_def RawBodyParser_def
           split: option.splits)

theorem DoRequest_nil_destination_fails_after_dispatch_witness:
  "DoRequest simEnv (demoClient 200 ''200 OK'' ''hello'' []) () ''GET'' ''/x''
       (JsonParser simEnv None) [] sim0
     = (Returns (Some (Errorf ''JsonParser function error: %v | %v'')),
        simBuilt\<lparr>stream := ''hello'', closes := 1, journal := [''Do'', ''validate'']\<rparr>)
   \<and> DoRequest simEnv (demoClient 200 ''200 OK'' ''hello'' []) () ''GET'' ''/x''
       (RawStringParser None) [] sim0
     = (Returns (Some (Errorf ''RawStringParser function error: %v | %v'')),
        simBuilt\<lparr>stream := ''hello'', closes := 1, journal := [''Do'', ''validate'']\<rparr>)
   \<and> DoRequest simEnv (demoClient 404 ''404 Not Found'' ''not found'' []) () ''GET'' ''/x''
       (JsonParser simEnv None) [] sim0
     = (Returns (Some (StatusError
          \<lparr>Code = 404, Status = ''404 Not Found'', Body = ''not found''\<rparr>)),
        simBuilt\<lparr>closes := 1, journal := [''Do'', ''validate'']\<rparr>)"
proof -
  note after_dispatch =
    DoRequest_nil_destination_fails_after_dispatch
      [OF demo_prefix(1-4), THEN conjunct2, rule_format, OF demo_prefix(5) demo_prefix(6)]
  show ?thesis
    using after_dispatch [OF demo_verdicts(2)] after_dispatch [OF demo_verdicts(1)]
    by (simp add: simResponse_def simBody_def simBuilt_def sim0_def)
qed

section \<open>The headers option after an option that adds headers\<close>

text \<open>
  Claim C9, as the code has it. Let \<open>h\<close> be a non-nil header set and \<open>req\<close> a request.
  \<^item> When an option has run without error, has changed of the request at most the
    header map it refers to, and has left the contents of \<open>h\<close> as they were, and
    \<open>WithHeadersOpt(h)\<close> follows it, the request refers to \<open>h\<close> and carries the headers
    that \<open>h\<close> had: what \<open>WithHeadersOpt(h)\<close> alone gives.
  \<^item> The option installed by \<open>RequestBasicAuthOption\<close> is such an option when the
    request's header map is not nil and is not the map \<open>h\<close> itself: it writes the
    Authorization header into the request's map, and \<open>WithHeadersOpt(h)\<close> then makes
    the request refer to \<open>h\<close>, whose contents are untouched.
  \<^item> So a client built by \<open>NewClient\<close> with \<open>RequestBasicAuthOption\<close> as its only
    request option dispatches the Authorization header when called with no per-call
    option, and dispatches exactly the headers of \<open>h\<close> when called with the per-call
    option \<open>WithHeadersOpt(h)\<close> (the request it builds having a map of its own, as
    \<open>http.NewRequestWithContext\<close> gives it): the injected header stays behind in the
    map that the request no longer refers to.
\<close>

theorem WithHeadersOpt_discards_earlier_headers:
  "(\<forall>f added w1.
      f (Some req) w = (Returns (None, Some (req\<lparr>Header := added\<rparr>)), w1) \<longrightarrow>
      headerMaps w1 h = headerMaps w h \<longrightarrow>
        applyRequestOptions [f, WithHeadersOpt (Some h)] (Some req) w =
          (Returns (None, Some (req\<lparr>Header := Some h\<rparr>)), w1)
        \<and> headersOf (req\<lparr>Header := Some h\<rparr>) w1 = Some (headerMaps w h))
   \<and> (applyRequestOptions [WithHeadersOpt (Some h)] (Some req) w =
          (Returns (None, Some (req\<lparr>Header := Some h\<rparr>)), w)
        \<and> headersOf (req\<lparr>Header := Some h\<rparr>) w = Some (headerMaps w h))
   \<and> (\<forall>a. Header req = Some a \<longrightarrow> a \<noteq> h \<longrightarrow>
        (let auth = [''Basic '' @ basicAuth username password];
             w1 = w\<lparr>headerMaps :=
                      (headerMaps w)(a := (headerMaps w a)(''Authorization'' \<mapsto> auth))\<rparr>
         in applyRequestOptions [basicAuthRequestOption username password] (Some req) w =
              (Returns (None, Some req), w1)
            \<and> headersOf req w1 = Some ((headerMaps w a)(''Authorization'' \<mapsto> auth))
            \<and> applyRequestOptions
                  [basicAuthRequestOption username password, WithHeadersOpt (Some h)]
                  (Some req) w =
                (Returns (None, Some (req\<lparr>Header := Some h\<rparr>)), w1)
            \<and> headersOf (req\<lparr>Header := Some h\<rparr>) w1 = Some (headerMaps w h)))
   \<and> (\<forall>opts built a w0.
        requestOptionsChain (NewClient env ep opts) = [] \<longrightarrow>
        (let client = NewClient env ep (opts @ [RequestBasicAuthOption username password])
         in newRequestWithContext env ctx method (endpoint client @ path) w
              = (Inr built, w0) \<longrightarrow>
            Header built = Some a \<longrightarrow> a \<noteq> h \<longrightarrow>
            (let auth = [''Basic '' @ basicAuth username password];
                 w1 = w0\<lparr>headerMaps :=
                          (headerMaps w0)(a := (headerMaps w0 a)(''Authorization'' \<mapsto> auth))\<rparr>
             in DoRequest env client ctx method path parser [] w =
                  dispatch env client parser (Some built) w1
                \<and> headersOf built w1 = Some ((headerMaps w0 a)(''Authorization'' \<mapsto> auth))
                \<and> DoRequest env client ctx method path parser [WithHeadersOpt (Some h)] w =
                    dispatch env client parser (Some (built\<lparr>Header := Some h\<rparr>)) w1
                \<and> headersOf (built\<lparr>Header := Some h\<rparr>) w1 = Some (headerMaps w0 h))))"
proof -
  have chain: "requestOptionsChain
                 (NewClient env ep (opts @ [RequestBasicAuthOption username password]))
               = [basicAuthRequestOption username password]"
    if "requestOptionsChain (NewClient env ep opts) = []" for opts
    using that by (simp add: NewClient_def RequestBasicAuthOption_def)
  show ?thesis
    by (auto simp: Let_def chain DoRequest_def basicAuthRequestOption_writes WithHeadersOpt_def
          headersOf_def)
qed

theorem WithHeadersOpt_discards_earlier_headers_witness:
  "journal (snd (DoRequest simEnv
       (NewClient simEnv ''http://host''
          ([WithHttpClient simAuthServer] @ [RequestBasicAuthOption ''user'' ''secret'']))
       () ''GET'' ''/x'' (RawStringParser toDest) [] simCaller))
     = [''Basic dXNlcjpzZWNyZXQ='']
   \<and> journal (snd (DoRequest simEnv
       (NewClient simEnv ''http://host''
          ([WithHttpClient simAuthServer] @ [RequestBasicAuthOption ''user'' ''secret'']))
       () ''GET'' ''/x'' (RawStringParser toDest) [WithHeadersOpt (Some 0)] simCaller))
     = [''no Authorization'']
   \<and> headerMaps (snd (DoRequest simEnv
       (NewClient simEnv ''http://host''
          ([WithHttpClient simAuthServer] @ [RequestBasicAuthOption ''user'' ''secret'']))
       () ''GET'' ''/x'' (RawStringParser toDest) [WithHeadersOpt (Some 0)] simCaller))
       1 ''Authorization''
     = Some [''Basic dXNlcjpzZWNyZXQ='']"
proof -
  let ?c = "NewClient simEnv ''http://host''
              ([WithHttpClient simAuthServer] @ [RequestBasicAuthOption ''user'' ''secret''])"
  let ?built = "\<lparr>Method = ''GET'', URL = ''http://host/x'', Header = Some 1\<rparr>"
  let ?w0 = "simCaller\<lparr>headerMaps := (headerMaps simCaller)(1 := Map.empty), fresh := 2\<rparr>"
  have bare: "requestOptionsChain (NewClient simEnv ''http://host'' [WithHttpClient simAuthServer])
                = []"
    by (simp add: NewClient_def WithHttpClient_def)
  have built: "newRequestWithContext simEnv () ''GET'' (endpoint ?c @ ''/x'') simCaller
                 = (Inr ?built, ?w0)"
    by (simp add: NewClient_def WithHttpClient_def RequestBasicAuthOption_def simEnv_def
          simNewRequest_def simCaller_def sim0_def)
  have own: "Header ?built = Some 1" "(1::nat) \<noteq> 0"
    by simp_all
  note at_call = WithHeadersOpt_discards_earlier_headers
     [of _ simCaller 0 "''user''" "''secret''" simEnv "''http://host''" "()" "''GET''" "''/x''"
         "RawStringParser toDest",
      THEN conjunct2, THEN conjunct2, THEN conjunct2, rule_format, OF bare]
  show ?thesis
    using at_call [unfolded Let_def, rule_format, OF built own]
    by (simp add: Let_def basicAuth_user_secret dispatch_def deferredClose_def
          validateAndParse_def NewClient_def WithHttpClient_def RequestBasicAuthOption_def
          simAuthServer_def headersOf_def debugRequest_def debugResponse_def
          ResponseValidator_def RawStringParser_def toDest_def simResponse_def simBody_def
          simCaller_def sim0_def)
qed

text \<open>
  Claim C9 as it is written fails where the request's header map is \<open>h\<close> itself, and
  where it is nil. A client with the global options \<open>WithHeadersOpt(h)\<close> and
  \<open>RequestBasicAuthOption\<close>, called with the per-call option \<open>WithHeadersOpt(h)\<close>,
  dispatches the Authorization header: the basic-auth option has written it into
  \<open>h\<close>, the map the request then referred to, and the per-call option makes the request
  refer to that same map; with \<open>WithHeadersOpt(h)\<close> alone no Authorization header is
  dispatched. And on a request whose header map is nil the basic-auth option panics.
\<close>

theorem WithHeadersOpt_keeps_Authorization_written_into_h:
  "journal (snd (DoRequest simEnv
       (NewClient simEnv ''http://host''
          [WithHttpClient simAuthServer, WithRequestOptions [WithHeadersOpt (Some 0)],
           RequestBasicAuthOption ''user'' ''secret''])
       () ''GET'' ''/x'' (RawStringParser toDest) [WithHeadersOpt (Some 0)] simCaller))
     = [''Basic dXNlcjpzZWNyZXQ='']
   \<and> journal (snd (DoRequest simEnv
       (NewClient simEnv ''http://host'' [WithHttpClient simAuthServer])
       () ''GET'' ''/x'' (RawStringParser toDest) [WithHeadersOpt (Some 0)] simCaller))
     = [''no Authorization'']
   \<and> basicAuthRequestOption ''user'' ''secret''
       (Some \<lparr>Method = ''GET'', URL = ''http://host/x'', Header = None\<rparr>) simCaller
     = (Panics, simCaller)"
  by (simp add: DoRequest_def dispatch_def deferredClose_def validateAndParse_def
        NewClient_def WithHttpClient_def WithRequestOptions_def RequestBasicAuthOption_def
        WithHeadersOpt_def basicAuthRequestOption_def SetBasicAuth_def basicAuth_user_secret
        simAuthServer_def headersOf_def simEnv_def simNewRequest_def debugRequest_def
        debugResponse_def ResponseValidator_def RawStringParser_def toDest_def simResponse_def
        simBody_def simCaller_def sim0_def)

section \<open>The no-body parser never fails\<close>

text \<open>
  Claim C10. For every non-nil response \<open>NoBodyParser\<close> returns nil, whatever the
  content length, the body and the logger. So the result of \<open>DoRequestNoBody\<close>, and
  of \<open>Get\<close>, is on every call the result of the same pipeline run with a parser that
  does nothing and succeeds: an error that they return comes from the request
  construction, an option, the transport or the validator, never from the parser.
\<close>

theorem NoBodyParser_never_fails:
  "(\<exists>w'. NoBodyParser env l (Some r) w = (Returns None, w'))
   \<and> fst (DoRequestNoBody env c ctx method path options w) =
       fst (DoRequest env c ctx method path (\<lambda>resp w. (Returns None, w)) options w)
   \<and> fst (Get env c ctx path options w) =
       fst (DoRequest env c ctx ''GET'' path (\<lambda>resp w. (Returns None, w)) options w)"
  using NoBodyParser_returns_nil[of env l r w]
  by (simp add: Get_def DoRequestNoBody_def DoRequest_def dispatch_NoBodyParser
           split: sum.splits prod.splits outcome.splits option.splits)

theorem NoBodyParser_never_fails_witness:
  "fst (DoRequestNoBody simEnv (demoClient 201 ''201 Created'' [] []) () ''DELETE''
          ''/api/v1/groups?id=test'' [] sim0) = Returns None
   \<and> fst (Get simEnv (demoClient 200 ''200 OK'' ''hello'' []) () ''/x'' [] sim0) = Returns None
   \<and> NoBodyParser simEnv (Some simLogger) (Some (simResponse 200 ''200 OK'' ''hello''))
         (sim0\<lparr>stream := ''hello''\<rparr>)
       = (Returns None, sim0\<lparr>closes := 1, copy := ''hello'', journal := [''Infof'']\<rparr>)"
  using NoBodyParser_never_fails
          [of simEnv _ _ sim0 "demoClient 201 ''201 Created'' [] []" "()" "''DELETE''"
              "''/api/v1/groups?id=test''" "[]"]
        NoBodyParser_never_fails
          [of simEnv _ _ sim0 "demoClient 200 ''200 OK'' ''hello'' []" "()" _ "''/x''" "[]"]
        NoBodyParser_never_fails
          [of simEnv "Some simLogger" "simResponse 200 ''200 OK'' ''hello''"
              "sim0\<lparr>stream := ''hello''\<rparr>"]
  by (simp add: DoRequest_def dispatch_def deferredClose_def validateAndParse_def
        NoBodyParser_def logResponse_def logInfof_def simDumpResponse_def copyBody_def sim_defs)

end
